theory Spec2Isabelle
  imports Main "HOL-Library.Sublist"
begin

section \<open>Python strings\<close>

text \<open>
  A code string is a Python \<^verbatim>\<open>str\<close>. It is modelled as a \<^typ>\<open>string\<close>, each
  \<^typ>\<open>char\<close> standing for the code point of the same number, so the model covers the
  strings whose code points are below 256; on these \<^verbatim>\<open>len\<close> is \<^const>\<open>length\<close>.
  The built-in operations that \<^verbatim>\<open>validate_code\<close> uses are written out for this range:
  \<^verbatim>\<open>str.isspace\<close> of one character, \<^verbatim>\<open>str.strip()\<close>, \<^verbatim>\<open>str.lower()\<close> and the
  substring test \<^verbatim>\<open>p in s\<close>.
\<close>

definition isspace :: "char \<Rightarrow> bool" where
  \<comment> \<open>tab, newline, vertical tab, form feed, carriage return; the four separators
      0x1c..0x1f; space; next line 0x85; no-break space 0xa0\<close>
  "isspace c =
     (let n = (of_char c :: nat)
      in (9 \<le> n \<and> n \<le> 13) \<or> (28 \<le> n \<and> n \<le> 32) \<or> n = 133 \<or> n = 160)"

definition strip :: "string \<Rightarrow> string" where
  "strip s = rev (dropWhile isspace (rev (dropWhile isspace s)))"

definition lower_char :: "char \<Rightarrow> char" where
  \<comment> \<open>A..Z, and the capital letters 0xc0..0xde of Latin-1 without the
      multiplication sign 0xd7, move up by 32; every other character stays\<close>
  "lower_char c =
     (let n = (of_char c :: nat)
      in if (65 \<le> n \<and> n \<le> 90) \<or> (192 \<le> n \<and> n \<le> 222 \<and> n \<noteq> 215)
         then char_of (n + 32) else c)"

definition lower :: "string \<Rightarrow> string" where
  "lower s = map lower_char s"

fun str_in :: "string \<Rightarrow> string \<Rightarrow> bool" where
  \<comment> \<open>\<^verbatim>\<open>p in s\<close>: p occurs in s as a contiguous substring\<close>
  "str_in p [] = (p = [])"
| "str_in p (c # s) = (prefix p (c # s) \<or> str_in p s)"

text \<open>\<^verbatim>\<open>str(n)\<close> of a natural number, as the f-string of the length message formats it.\<close>

definition digit_char :: "nat \<Rightarrow> char" where
  "digit_char d = char_of (48 + d)"

function str_nat :: "nat \<Rightarrow> string" where
  "str_nat n = (if n < 10 then [digit_char n] else str_nat (n div 10) @ [digit_char (n mod 10)])"
  by pat_completeness auto
termination
  by (relation "measure (\<lambda>n. n)") auto

declare str_nat.simps [simp del]

section \<open>Configuration\<close>

text \<open>
  The two entries of \<^verbatim>\<open>app.config\<close> that the execution core reads, with the values
  class \<^verbatim>\<open>Config\<close> gives them.
\<close>

record config =
  EXECUTION_TIMEOUT :: nat
  MAX_CODE_LENGTH :: nat

definition Config :: config where
  "Config = \<lparr>EXECUTION_TIMEOUT = 10, MAX_CODE_LENGTH = 50000\<rparr>"

section \<open>validate_code\<close>

definition dangerous_patterns :: "string list" where
  "dangerous_patterns =
     [''import os'', ''import sys'', ''import subprocess'', ''eval('', ''exec('',
      ''__import__'', ''globals()'', ''locals()'', ''open('', ''file('',
      ''system('', ''popen('', ''spawn('', ''fork('', ''kill('']"

definition empty_msg :: string where
  "empty_msg = ''Code cannot be empty''"

definition too_long_msg :: "config \<Rightarrow> string" where
  "too_long_msg cfg =
     ''Code too long. Maximum '' @ str_nat (MAX_CODE_LENGTH cfg) @ '' characters allowed.''"

definition dangerous_msg :: "string \<Rightarrow> string" where
  "dangerous_msg pattern = ''Potentially dangerous code detected: '' @ pattern"

text \<open>
  The result is the pair \<^verbatim>\<open>(is_valid, error_msg)\<close>. The loop over the patterns returns
  at the first pattern that occurs in the lowercased code, which is what
  \<^const>\<open>find\<close> computes.
\<close>

definition validate_code :: "config \<Rightarrow> string \<Rightarrow> string \<Rightarrow> bool \<times> string option" where
  "validate_code cfg code language =
     (if code = [] \<or> strip code = [] then (False, Some empty_msg)
      else if length code > MAX_CODE_LENGTH cfg then (False, Some (too_long_msg cfg))
      else (let code_lower = lower code
            in case find (\<lambda>pattern. str_in pattern code_lower) dangerous_patterns of
                 Some pattern \<Rightarrow> (False, Some (dangerous_msg pattern))
               | None \<Rightarrow> (True, None)))"

section \<open>The operating system\<close>

text \<open>
  The runners create files, start child processes and delete files. The machine they run
  on is a \<open>world\<close>: the files on disk, the trace of what has been done to it, and the
  session of the web layer. What the machine answers to a call is not decided by the
  program, so it is a parameter, the \<open>platform\<close>: a theorem about every platform covers
  every behaviour of the file system, the interpreter, the compiler and the submitted
  program. Logging is left out.
\<close>

type_synonym path = string
type_synonym argv = "string list"

text \<open>The exceptions that the handlers tell apart; the argument is \<^verbatim>\<open>str(e)\<close>.\<close>

datatype pyexc =
    TimeoutExpired string
  | FileNotFoundError string
  | OSError string
  | Exception string

fun exc_str :: "pyexc \<Rightarrow> string" where
  "exc_str (TimeoutExpired m) = m"
| "exc_str (FileNotFoundError m) = m"
| "exc_str (OSError m) = m"
| "exc_str (Exception m) = m"

datatype event =
    Created path   \<comment> \<open>a temporary file was created\<close>
  | Spawned argv   \<comment> \<open>a child process was started\<close>
  | Killed argv    \<comment> \<open>the child was killed when its timeout expired\<close>
  | Unlink path    \<comment> \<open>\<^verbatim>\<open>os.unlink\<close> was called\<close>

record world =
  files :: "path set"
  events :: "event list"
  session :: "string \<rightharpoonup> string"

text \<open>
  A child process, as far as its parent sees it: the seconds it needs (\<open>None\<close>: it never
  ends), its exit status, what it prints, and what it does to the files on disk.
\<close>

record child =
  runtime :: "nat option"
  returncode :: int
  stdout :: string
  stderr :: string
  disk :: "path set \<Rightarrow> path set"

record platform =
  os_name :: string
  gettempdir :: path
  sys_executable :: path
  mktemp :: "world \<Rightarrow> string \<Rightarrow> pyexc + path"
  write_fails :: "world \<Rightarrow> path \<Rightarrow> string \<Rightarrow> pyexc option"
  close_fails :: "world \<Rightarrow> path \<Rightarrow> pyexc option"
  popen :: "world \<Rightarrow> argv \<Rightarrow> path option \<Rightarrow> (string \<times> string) list option \<Rightarrow> pyexc + child"
  unlink_fails :: "world \<Rightarrow> path \<Rightarrow> string option"
  timeout_str :: "argv \<Rightarrow> nat \<Rightarrow> string"

text \<open>
  The block
  \<^verbatim>\<open>with tempfile.NamedTemporaryFile(mode='w', suffix=s, delete=False) as f:
      f.write(code); name = f.name\<close>
  has four ways out. Creating the file raises: there is no file and no name. Writing
  raises: the file is there and stays (\<^verbatim>\<open>delete=False\<close>), and the name is never bound.
  Closing the file at the end of the block raises: the file is there and the name is
  bound. Or the block completes.
\<close>

datatype temp_result =
    Unbound pyexc            \<comment> \<open>raised before the name was bound\<close>
  | Bound_raised path pyexc  \<comment> \<open>raised after the name was bound\<close>
  | Bound path               \<comment> \<open>completed\<close>

fun bound_name :: "temp_result \<Rightarrow> path option" where
  "bound_name (Unbound e) = None"
| "bound_name (Bound_raised name e) = Some name"
| "bound_name (Bound name) = Some name"

definition with_NamedTemporaryFile ::
    "platform \<Rightarrow> world \<Rightarrow> string \<Rightarrow> string \<Rightarrow> temp_result \<times> world" where
  "with_NamedTemporaryFile pf w sfx body =
     (case mktemp pf w sfx of
        Inl e \<Rightarrow> (Unbound e, w)
      | Inr name \<Rightarrow>
          (let w1 = w\<lparr>files := insert name (files w), events := events w @ [Created name]\<rparr>
           in case write_fails pf w1 name body of
                Some e \<Rightarrow> (Unbound e, w1)
              | None \<Rightarrow>
                  (case close_fails pf w1 name of
                     Some e \<Rightarrow> (Bound_raised name e, w1)
                   | None \<Rightarrow> (Bound name, w1))))"

definition exceeds :: "nat option \<Rightarrow> nat \<Rightarrow> bool" where
  "exceeds rt timeout = (case rt of None \<Rightarrow> True | Some d \<Rightarrow> timeout < d)"

text \<open>
  \<^verbatim>\<open>subprocess.run(args, capture_output=True, text=True, timeout=t, cwd=.., env=..)\<close>:
  starting the child can raise (no such program); a child that is still running when
  the timeout expires is killed and \<^verbatim>\<open>TimeoutExpired\<close> is raised; otherwise the completed
  child is returned. What a child prints is taken to be text that decodes.
\<close>

definition subprocess_run ::
    "platform \<Rightarrow> world \<Rightarrow> argv \<Rightarrow> nat \<Rightarrow> path option \<Rightarrow> (string \<times> string) list option
       \<Rightarrow> (pyexc + child) \<times> world" where
  "subprocess_run pf w args timeout cwd env =
     (case popen pf w args cwd env of
        Inl e \<Rightarrow> (Inl e, w)
      | Inr ch \<Rightarrow>
          (let w1 = w\<lparr>files := disk ch (files w), events := events w @ [Spawned args]\<rparr>
           in if exceeds (runtime ch) timeout
              then (Inl (TimeoutExpired (timeout_str pf args timeout)),
                    w1\<lparr>events := events w1 @ [Killed args]\<rparr>)
              else (Inr ch, w1)))"

text \<open>
  \<^verbatim>\<open>os.unlink(p)\<close> raises \<^verbatim>\<open>FileNotFoundError\<close> when there is no such file and
  \<^verbatim>\<open>OSError\<close> when the platform refuses; both are \<^verbatim>\<open>OSError\<close>s, and it raises
  nothing else.
\<close>

definition os_unlink :: "platform \<Rightarrow> world \<Rightarrow> path \<Rightarrow> pyexc option \<times> world" where
  "os_unlink pf w p =
     (let w1 = w\<lparr>events := events w @ [Unlink p]\<rparr>
      in if p \<notin> files w then (Some (FileNotFoundError p), w1)
         else case unlink_fails pf w p of
                Some m \<Rightarrow> (Some (OSError m), w1)
              | None \<Rightarrow> (None, w1\<lparr>files := files w - {p}\<rparr>))"

text \<open>\<^verbatim>\<open>try: os.unlink(p)  except OSError: pass\<close>\<close>

definition unlink_quietly :: "platform \<Rightarrow> world \<Rightarrow> path \<Rightarrow> world" where
  "unlink_quietly pf w p = snd (os_unlink pf w p)"

section \<open>The runners\<close>

type_synonym run_result = "string option \<times> string option"

text \<open>The \<^verbatim>\<open>except\<close> clauses of \<^verbatim>\<open>execute_python_code\<close>, in their order.\<close>

fun python_except :: "pyexc \<Rightarrow> run_result" where
  "python_except (TimeoutExpired m) = (None, Some ''Execution timed out'')"
| "python_except e = (None, Some (''Execution error: '' @ exc_str e))"

definition python_env :: "(string \<times> string) list" where
  \<comment> \<open>\<^verbatim>\<open>env={'PYTHONPATH': '', 'PATH': '/usr/bin:/bin'}\<close>\<close>
  "python_env = [(''PYTHONPATH'', []), (''PATH'', ''/usr/bin:/bin'')]"

definition execute_python_code ::
    "platform \<Rightarrow> config \<Rightarrow> world \<Rightarrow> string \<Rightarrow> run_result \<times> world" where
  "execute_python_code pf cfg w code =
     (case with_NamedTemporaryFile pf w ''.py'' code of
        (Unbound e, w1) \<Rightarrow> (python_except e, w1)
      | (Bound_raised temp_file e, w1) \<Rightarrow> (python_except e, unlink_quietly pf w1 temp_file)
      | (Bound temp_file, w1) \<Rightarrow>
          (let (r, w2) =
                 (case subprocess_run pf w1 [''python'', temp_file] (EXECUTION_TIMEOUT cfg)
                         (Some (gettempdir pf)) (Some python_env) of
                    (Inl e, w2) \<Rightarrow> (python_except e, w2)
                  | (Inr result, w2) \<Rightarrow>
                      ((Some (stdout result),
                        if stderr result \<noteq> [] then Some (stderr result) else None), w2))
           in (r, unlink_quietly pf w2 temp_file)))"

text \<open>The \<^verbatim>\<open>except\<close> clauses of \<^verbatim>\<open>execute_c_code\<close>, in their order.\<close>

fun c_except :: "pyexc \<Rightarrow> run_result" where
  "c_except (TimeoutExpired m) = (None, Some ''Execution timed out'')"
| "c_except (FileNotFoundError m) =
     (None, Some ''GCC compiler not found. Please install GCC to run C code.'')"
| "c_except e = (None, Some (''Execution error: '' @ exc_str e))"

definition exe_name :: "platform \<Rightarrow> path \<Rightarrow> path" where
  \<comment> \<open>\<^verbatim>\<open>c_file[:-2] + '.exe' if os.name == 'nt' else c_file[:-2]\<close>\<close>
  "exe_name pf c_file =
     (if os_name pf = ''nt'' then take (length c_file - 2) c_file @ ''.exe''
      else take (length c_file - 2) c_file)"

definition gcc_argv :: "path \<Rightarrow> path \<Rightarrow> argv" where
  "gcc_argv c_file exe_file = [''gcc'', c_file, ''-o'', exe_file, ''-Wall'', ''-Wextra'']"

definition execute_c_code ::
    "platform \<Rightarrow> config \<Rightarrow> world \<Rightarrow> string \<Rightarrow> run_result \<times> world" where
  "execute_c_code pf cfg w code =
     (case with_NamedTemporaryFile pf w ''.c'' code of
        (Unbound e, w1) \<Rightarrow> (c_except e, w1)
      | (Bound_raised c_file e, w1) \<Rightarrow> (c_except e, unlink_quietly pf w1 c_file)
      | (Bound c_file, w1) \<Rightarrow>
          (let exe_file = exe_name pf c_file;
               (r, w3) =
                 (case subprocess_run pf w1 (gcc_argv c_file exe_file) (EXECUTION_TIMEOUT cfg)
                         None None of
                    (Inl e, w2) \<Rightarrow> (c_except e, w2)
                  | (Inr compile_result, w2) \<Rightarrow>
                      if returncode compile_result \<noteq> 0
                      then ((None, Some (stderr compile_result)), w2)
                      else (case subprocess_run pf w2 [exe_file] (EXECUTION_TIMEOUT cfg)
                                   (Some (gettempdir pf)) None of
                              (Inl e, w3) \<Rightarrow> (c_except e, w3)
                            | (Inr run_result, w3) \<Rightarrow>
                                ((Some (stdout run_result),
                                  if stderr run_result \<noteq> [] then Some (stderr run_result)
                                  else None), w3)))
           in (r, unlink_quietly pf (unlink_quietly pf w3 c_file) exe_file)))"

section \<open>The web layer\<close>

text \<open>
  \<^verbatim>\<open>render_template('index.html', ...)\<close> is modelled by the arguments it is given; an
  argument that is not passed is \<open>None\<close>.
\<close>

record page =
  page_output :: "string option"
  page_error :: "string option"
  page_html_preview :: "string option"
  page_theme :: string
  page_code :: string
  page_language :: string

definition dict_get :: "(string \<times> string) list \<Rightarrow> string \<Rightarrow> string \<Rightarrow> string" where
  \<comment> \<open>\<^verbatim>\<open>d.get(key, default)\<close>, the dictionary given by its items\<close>
  "dict_get d k dflt = (case map_of d k of Some v \<Rightarrow> v | None \<Rightarrow> dflt)"

definition javascript_output :: "string \<Rightarrow> string" where
  "javascript_output c =
     ''JavaScript code:'' @ [CHR 0x0A] @ c @ [CHR 0x0A, CHR 0x0A]
       @ ''(JavaScript execution in browser console)''"

definition unsupported_msg :: "string \<Rightarrow> string" where
  "unsupported_msg l = ''Unsupported language: '' @ l"

definition handle_code_execution ::
    "platform \<Rightarrow> config \<Rightarrow> world \<Rightarrow> (string \<times> string) list \<Rightarrow> string \<Rightarrow> string \<Rightarrow> string
       \<Rightarrow> page \<times> world" where
  "handle_code_execution pf cfg w form theme0 code0 language0 =
     (let lang = dict_get form ''language'' language0;
          cod = dict_get form ''code'' code0;
          w1 = w\<lparr>session := (session w)(''language'' \<mapsto> lang, ''code'' \<mapsto> cod)\<rparr>;
          (is_valid, error_msg) = validate_code cfg cod lang
      in if \<not> is_valid
         then (\<lparr>page_output = None, page_error = error_msg, page_html_preview = None,
                page_theme = theme0, page_code = cod, page_language = lang\<rparr>, w1)
         else if lang = ''python''
         then (let ((out, err), w2) = execute_python_code pf cfg w1 cod
               in (\<lparr>page_output = out, page_error = err, page_html_preview = None,
                     page_theme = theme0, page_code = cod, page_language = lang\<rparr>, w2))
         else if lang = ''c''
         then (let ((out, err), w2) = execute_c_code pf cfg w1 cod
               in (\<lparr>page_output = out, page_error = err, page_html_preview = None,
                     page_theme = theme0, page_code = cod, page_language = lang\<rparr>, w2))
         else if lang = ''html''
         then (\<lparr>page_output = None, page_error = None, page_html_preview = Some cod,
                page_theme = theme0, page_code = cod, page_language = lang\<rparr>, w1)
         else if lang = ''javascript''
         then (\<lparr>page_output = Some (javascript_output cod), page_error = None, page_html_preview = None,
                page_theme = theme0, page_code = cod, page_language = lang\<rparr>, w1)
         else (\<lparr>page_output = None, page_error = Some (unsupported_msg lang), page_html_preview = None,
                page_theme = theme0, page_code = cod, page_language = lang\<rparr>, w1))"

text \<open>
  The JSON bodies that \<^verbatim>\<open>api_execute\<close> builds, each returned with its HTTP status.
  The argument \<open>get_json\<close> is what \<^verbatim>\<open>request.get_json()\<close> does: it raises, or returns
  nothing, or returns the items of the object, whose values are strings.
\<close>

datatype api_body =
    ErrorJson "string option"                        \<comment> \<open>\<^verbatim>\<open>{'error': ..}\<close>\<close>
  | PreviewJson string                               \<comment> \<open>\<^verbatim>\<open>{'html_preview': ..}\<close>\<close>
  | ResultJson "string option" "string option" bool  \<comment> \<open>output, error, success\<close>

definition api_execute ::
    "platform \<Rightarrow> config \<Rightarrow> world \<Rightarrow> pyexc + (string \<times> string) list option
       \<Rightarrow> (api_body \<times> nat) \<times> world" where
  "api_execute pf cfg w get_json =
     (case get_json of
        Inl e \<Rightarrow> ((ErrorJson (Some ''Internal server error''), 500), w)
      | Inr None \<Rightarrow> ((ErrorJson (Some ''No JSON data provided''), 400), w)
      | Inr (Some data) \<Rightarrow>
          if data = [] then ((ErrorJson (Some ''No JSON data provided''), 400), w)
          else (let cod = dict_get data ''code'' [];
                    lang = dict_get data ''language'' ''python'';
                    (is_valid, error_msg) = validate_code cfg cod lang
                in if \<not> is_valid then ((ErrorJson error_msg, 400), w)
                   else if lang = ''python''
                   then (let ((out, err), w1) = execute_python_code pf cfg w cod
                         in ((ResultJson out err (err = None), 200), w1))
                   else if lang = ''c''
                   then (let ((out, err), w1) = execute_c_code pf cfg w cod
                         in ((ResultJson out err (err = None), 200), w1))
                   else if lang = ''html'' then ((PreviewJson cod, 200), w)
                   else ((ErrorJson (Some (unsupported_msg lang)), 400), w)))"

section \<open>The desktop window\<close>

datatype tab = Python | C | HTML










section \<open>A platform for examples\<close>

text \<open>
  The theorems hold for every platform. Their examples run on this one: a POSIX machine
  where temporary files are named \<^verbatim>\<open>/tmp/tmp0\<close> plus the suffix, the file system never
  fails, and the programs behave as the argument \<open>programs\<close> says.
\<close>

definition example_world :: world where
  "example_world = \<lparr>files = {}, events = [], session = Map.empty\<rparr>"

definition child_exit :: "int \<Rightarrow> string \<Rightarrow> string \<Rightarrow> child" where
  \<comment> \<open>a child that ends after one second and leaves the disk as it is\<close>
  "child_exit rc out err =
     \<lparr>runtime = Some 1, returncode = rc, stdout = out, stderr = err, disk = (\<lambda>fs. fs)\<rparr>"

definition child_forever :: child where
  \<comment> \<open>a child that never ends\<close>
  "child_forever =
     \<lparr>runtime = None, returncode = 0, stdout = [], stderr = [], disk = (\<lambda>fs. fs)\<rparr>"

definition example_platform :: "(argv \<Rightarrow> pyexc + child) \<Rightarrow> platform" where
  "example_platform programs =
     \<lparr>os_name = ''posix'', gettempdir = ''/tmp'', sys_executable = ''/usr/bin/python3'',
      mktemp = (\<lambda>w sfx. Inr (''/tmp/tmp0'' @ sfx)),
      write_fails = (\<lambda>w p s. None),
      close_fails = (\<lambda>w p. None),
      popen = (\<lambda>w args cwd env. programs args),
      unlink_fails = (\<lambda>w p. None),
      timeout_str = (\<lambda>args t. ''timed out'')\<rparr>"

definition gcc_fails :: "argv \<Rightarrow> pyexc + child" where
  "gcc_fails args = Inr (child_exit 1 [] ''prog.c:1:1: error: expected declaration'')"

definition all_hang :: "argv \<Rightarrow> pyexc + child" where
  "all_hang args = Inr child_forever"

definition binary_hangs :: "argv \<Rightarrow> pyexc + child" where
  \<comment> \<open>the compiler succeeds and writes the binary; the binary never ends\<close>
  "binary_hangs args =
     (case args of
        [exe] \<Rightarrow> Inr child_forever
      | _ \<Rightarrow> Inr ((child_exit 0 [] [])\<lparr>disk := insert ''/tmp/tmp0''\<rparr>))"

definition hello :: "argv \<Rightarrow> pyexc + child" where
  \<comment> \<open>every program prints a greeting and exits with status 0\<close>
  "hello args = Inr (child_exit 0 ''Hello, World!'' [])"

definition unlink_refused :: "platform \<Rightarrow> platform" where
  \<comment> \<open>the same platform, where deleting a file is refused\<close>
  "unlink_refused pf = pf\<lparr>unlink_fails := (\<lambda>w p. Some ''Permission denied'')\<rparr>"

definition write_refused :: "platform \<Rightarrow> platform" where
  \<comment> \<open>the same platform, where writing to a file fails\<close>
  "write_refused pf = pf\<lparr>write_fails := (\<lambda>w p s. Some (OSError ''No space left on device''))\<rparr>"




definition close_refused :: "platform \<Rightarrow> platform" where
  \<comment> \<open>the same platform, where closing a written file fails\<close>
  "close_refused pf = pf\<lparr>close_fails := (\<lambda>w p. Some (OSError ''No space left on device''))\<rparr>"


section \<open>Facts about the string operations\<close>

lemma strip_empty_iff: "strip s = [] \<longleftrightarrow> (\<forall>c \<in> set s. isspace c)"
proof -
  have "strip s = [] \<longleftrightarrow> dropWhile isspace (rev (dropWhile isspace s)) = []"
    by (simp add: strip_def)
  also have "\<dots> \<longleftrightarrow> (\<forall>c \<in> set (dropWhile isspace s). isspace c)"
    by (simp add: dropWhile_eq_Nil_conv)
  also have "\<dots> \<longleftrightarrow> (\<forall>c \<in> set s. isspace c)"
  proof
    assume a: "\<forall>c \<in> set (dropWhile isspace s). isspace c"
    have "dropWhile isspace s = []"
    proof (cases "dropWhile isspace s")
      case Nil
      then show ?thesis .
    next
      case (Cons x xs)
      then have "\<not> isspace x" using hd_dropWhile [of isspace s] by auto
      moreover have "isspace x" using a Cons by simp
      ultimately show ?thesis by simp
    qed
    then show "\<forall>c \<in> set s. isspace c" by (simp add: dropWhile_eq_Nil_conv)
  next
    assume "\<forall>c \<in> set s. isspace c"
    then show "\<forall>c \<in> set (dropWhile isspace s). isspace c"
      using set_dropWhileD by fastforce
  qed
  finally show ?thesis .
qed

lemma str_in_iff: "str_in p s \<longleftrightarrow> (\<exists>a b. s = a @ p @ b)"
proof (induction s)
  case Nil
  then show ?case by auto
next
  case (Cons c s)
  show ?case
  proof
    assume "str_in p (c # s)"
    then consider "prefix p (c # s)" | "str_in p s" by auto
    then show "\<exists>a b. c # s = a @ p @ b"
    proof cases
      case 1
      then obtain b where "c # s = p @ b" by (auto simp: prefix_def)
      then have "c # s = [] @ p @ b" by simp
      then show ?thesis by blast
    next
      case 2
      then obtain a b where "s = a @ p @ b" using Cons.IH by blast
      then have "c # s = (c # a) @ p @ b" by simp
      then show ?thesis by blast
    qed
  next
    assume "\<exists>a b. c # s = a @ p @ b"
    then obtain a b where ab: "c # s = a @ p @ b" by blast
    show "str_in p (c # s)"
    proof (cases a)
      case Nil
      then have "prefix p (c # s)" using ab by (simp add: prefix_def)
      then show ?thesis by simp
    next
      case (Cons x a')
      then have "s = a' @ p @ b" using ab by simp
      then have "str_in p s" using Cons.IH by blast
      then show ?thesis by simp
    qed
  qed
qed

lemma str_in_set: "str_in p s \<Longrightarrow> set p \<subseteq> set s"
  by (auto simp: str_in_iff)

lemma isspace_lower_char: "isspace c \<Longrightarrow> lower_char c = c"
  by (auto simp: isspace_def lower_char_def Let_def)

lemma length_lower: "length (lower s) = length s"
  by (simp add: lower_def)

section \<open>Facts about validate_code\<close>

lemma Config_defaults: "EXECUTION_TIMEOUT Config = 10 \<and> MAX_CODE_LENGTH Config = 50000"
  by (simp add: Config_def)

lemmas eval_char = char_of_def bit_iff_odd isspace_def lower_char_def lower_def digit_char_def

lemma str_nat_50000: "str_nat 50000 = ''50000''"
  by (simp add: str_nat.simps[of 50000] str_nat.simps[of 5000] str_nat.simps[of 500]
        str_nat.simps[of 50] str_nat.simps[of 5] eval_char)

lemma too_long_msg_Config:
  "too_long_msg Config = ''Code too long. Maximum 50000 characters allowed.''"
  by (simp add: too_long_msg_def Config_def str_nat_50000)

lemma strip_Nil: "strip [] = []"
  by (simp add: strip_def)

lemma pattern_nonspace:
  "p \<in> set dangerous_patterns \<Longrightarrow> \<exists>c \<in> set p. \<not> isspace c"
  by (auto simp: dangerous_patterns_def isspace_def)

lemma lower_nonspace:
  assumes "c \<in> set (lower s)" and "\<not> isspace c"
  shows "\<exists>d \<in> set s. \<not> isspace d"
proof -
  from assms(1) obtain d where d: "d \<in> set s" "c = lower_char d"
    by (auto simp: lower_def)
  have "\<not> isspace d"
  proof
    assume "isspace d"
    then have "lower_char d = d" by (rule isspace_lower_char)
    with d(2) assms(2) \<open>isspace d\<close> show False by simp
  qed
  with d(1) show ?thesis by blast
qed

lemma denied_not_blank:
  assumes "p \<in> set dangerous_patterns" and "str_in p (lower s)"
  shows "s \<noteq> [] \<and> strip s \<noteq> []"
proof -
  obtain c where c: "c \<in> set p" "\<not> isspace c"
    using pattern_nonspace [OF assms(1)] by blast
  have "c \<in> set (lower s)" using str_in_set [OF assms(2)] c(1) by blast
  then obtain d where "d \<in> set s" "\<not> isspace d"
    using lower_nonspace c(2) by blast
  then show ?thesis by (auto simp: strip_empty_iff)
qed

lemma validate_code_checked:
  assumes "strip s \<noteq> []" and "length s \<le> MAX_CODE_LENGTH cfg"
  shows "validate_code cfg s l =
           (case find (\<lambda>pattern. str_in pattern (lower s)) dangerous_patterns of
              Some pattern \<Rightarrow> (False, Some (dangerous_msg pattern))
            | None \<Rightarrow> (True, None))"
  using assms by (auto simp: validate_code_def strip_Nil)

lemma denied_first_pattern:
  assumes "length s \<le> MAX_CODE_LENGTH cfg"
    and "p \<in> set dangerous_patterns" and "str_in p (lower s)"
  shows "\<exists>q. find (\<lambda>pattern. str_in pattern (lower s)) dangerous_patterns = Some q
            \<and> q \<in> set dangerous_patterns \<and> str_in q (lower s)
            \<and> validate_code cfg s l = (False, Some (dangerous_msg q))"
proof -
  have nb: "strip s \<noteq> []" using denied_not_blank [OF assms(2,3)] by simp
  have "find (\<lambda>pattern. str_in pattern (lower s)) dangerous_patterns \<noteq> None"
    using assms(2,3) by (auto simp: find_None_iff)
  then obtain q where q: "find (\<lambda>pattern. str_in pattern (lower s)) dangerous_patterns = Some q"
    by blast
  then have "q \<in> set dangerous_patterns \<and> str_in q (lower s)"
    by (auto simp: find_Some_iff)
  moreover have "validate_code cfg s l = (False, Some (dangerous_msg q))"
    using validate_code_checked [OF nb assms(1)] q by simp
  ultimately show ?thesis using q by blast
qed

text \<open>
  Claim C5, as the code has it. The empty check and the length check come before the
  denylist, so the denylist decides only for code within the length limit (code that
  contains a pattern is never blank). Then \<^const>\<open>validate_code\<close> fails with the
  message that names a pattern occurring in the lowercased code: the first one in the
  order of the denylist.
\<close>

theorem validate_code_denied:
  assumes "length s \<le> MAX_CODE_LENGTH cfg"
    and "p \<in> set dangerous_patterns" and "str_in p (lower s)"
  shows "\<exists>q. find (\<lambda>pattern. str_in pattern (lower s)) dangerous_patterns = Some q
            \<and> q \<in> set dangerous_patterns \<and> str_in q (lower s)
            \<and> validate_code cfg s l = (False, Some (dangerous_msg q))"
  using assms by (rule denied_first_pattern)

theorem validate_code_denied_witness:
  "length ''x = EVAL(1)'' \<le> MAX_CODE_LENGTH Config
   \<and> ''eval('' \<in> set dangerous_patterns
   \<and> str_in ''eval('' (lower ''x = EVAL(1)'')
   \<and> (\<exists>q. find (\<lambda>pattern. str_in pattern (lower ''x = EVAL(1)'')) dangerous_patterns = Some q
            \<and> q \<in> set dangerous_patterns \<and> str_in q (lower ''x = EVAL(1)'')
            \<and> validate_code Config ''x = EVAL(1)'' ''python'' = (False, Some (dangerous_msg q)))"
proof -
  have h1: "length ''x = EVAL(1)'' \<le> MAX_CODE_LENGTH Config" by (simp add: Config_def)
  have h2: "''eval('' \<in> set dangerous_patterns" by (simp add: dangerous_patterns_def)
  have h3: "str_in ''eval('' (lower ''x = EVAL(1)'')" by (simp add: eval_char)
  show ?thesis using h1 h2 h3 validate_code_denied [OF h1 h2 h3, of "''python''"] by blast
qed

lemma str_in_append: "str_in p (a @ p @ b)"
  by (auto simp: str_in_iff)

lemma lower_append: "lower (a @ b) = lower a @ lower b"
  by (simp add: lower_def)

text \<open>
  C5 as stated fails: code of 50001 characters that ends in \<^verbatim>\<open>eval(\<close> is rejected
  as too long, not for the pattern.
\<close>

theorem validate_code_denied_counterexample:
  "''eval('' \<in> set dangerous_patterns
   \<and> str_in ''eval('' (lower (replicate 49996 CHR ''a'' @ ''eval(''))
   \<and> validate_code Config (replicate 49996 CHR ''a'' @ ''eval('') ''python''
       = (False, Some ''Code too long. Maximum 50000 characters allowed.'')"
proof -
  let ?s = "replicate 49996 CHR ''a'' @ ''eval(''"
  have h2: "''eval('' \<in> set dangerous_patterns" by (simp add: dangerous_patterns_def)
  have "lower ?s = lower (replicate 49996 CHR ''a'') @ ''eval('' @ []"
    by (simp add: lower_append) (simp add: eval_char)
  then have h3: "str_in ''eval('' (lower ?s)" by (simp only: str_in_append)
  have "CHR ''('' \<in> set ?s" by simp
  moreover have "\<not> isspace CHR ''(''" by (simp add: isspace_def)
  ultimately have nb: "strip ?s \<noteq> []" unfolding strip_empty_iff by blast
  then have ne: "?s \<noteq> []" by (auto simp: strip_Nil)
  have len: "length ?s > MAX_CODE_LENGTH Config" by (simp add: Config_def)
  have "validate_code Config ?s ''python'' = (False, Some (too_long_msg Config))"
    using nb ne len by (simp add: validate_code_def)
  then show ?thesis using h2 h3 by (simp only: too_long_msg_Config simp_thms)
qed


text \<open>
  Claim C6, as the code has it. The empty check comes first, so code that is longer than
  \<^const>\<open>MAX_CODE_LENGTH\<close> fails with the length message when it is not blank.
\<close>

theorem validate_code_too_long:
  assumes "strip s \<noteq> []" and "length s > MAX_CODE_LENGTH cfg"
  shows "validate_code cfg s l = (False, Some (too_long_msg cfg))"
  using assms by (auto simp: validate_code_def)

theorem validate_code_too_long_witness:
  "strip (replicate 50001 CHR ''a'') \<noteq> []
   \<and> length (replicate 50001 CHR ''a'') > MAX_CODE_LENGTH Config
   \<and> validate_code Config (replicate 50001 CHR ''a'') ''python''
       = (False, Some ''Code too long. Maximum 50000 characters allowed.'')"
proof -
  let ?s = "replicate 50001 CHR ''a''"
  have "\<not> isspace CHR ''a''" by (simp add: isspace_def)
  then have h1: "strip ?s \<noteq> []" by (simp add: strip_empty_iff)
  have h2: "length ?s > MAX_CODE_LENGTH Config" by (simp add: Config_def)
  show ?thesis
    using h1 h2 validate_code_too_long [OF h1 h2, of "''python''"]
    by (simp only: too_long_msg_Config simp_thms)
qed

text \<open>
  C6 as stated fails: 50001 spaces are rejected as empty, not as too long.
\<close>

theorem validate_code_too_long_counterexample:
  "length (replicate 50001 CHR '' '') > MAX_CODE_LENGTH Config
   \<and> validate_code Config (replicate 50001 CHR '' '') ''python''
       = (False, Some ''Code cannot be empty'')"
proof -
  let ?s = "replicate 50001 CHR '' ''"
  have "isspace CHR '' ''" by (simp add: isspace_def)
  then have "strip ?s = []" by (simp add: strip_empty_iff)
  then have "validate_code Config ?s ''python'' = (False, Some empty_msg)"
    by (simp add: validate_code_def)
  moreover have "length ?s > MAX_CODE_LENGTH Config" by (simp add: Config_def)
  ultimately show ?thesis by (simp add: empty_msg_def)
qed

lemma denied_rejected:
  assumes "p \<in> set dangerous_patterns" and "str_in p (lower s)"
  shows "\<not> fst (validate_code cfg s l)"
proof (cases "length s \<le> MAX_CODE_LENGTH cfg")
  case True
  from denied_first_pattern [OF True assms, of l] obtain q
    where "validate_code cfg s l = (False, Some (dangerous_msg q))" by blast
  then show ?thesis by simp
next
  case False
  have "strip s \<noteq> []" using denied_not_blank [OF assms] by simp
  then show ?thesis using False by (simp add: validate_code_def)
qed

text \<open>
  Claim C10: \<^const>\<open>validate_code\<close> does not look at its language argument, so any two
  languages get the same result; in particular code that contains a pattern of the
  denylist is rejected for \<^verbatim>\<open>html\<close> and \<^verbatim>\<open>javascript\<close> too.
\<close>

theorem validate_code_language_independent:
  "validate_code cfg s l1 = validate_code cfg s l2
   \<and> (\<forall>p \<in> set dangerous_patterns. str_in p (lower s) \<longrightarrow>
         \<not> fst (validate_code cfg s ''html'') \<and> \<not> fst (validate_code cfg s ''javascript''))"
proof
  show "validate_code cfg s l1 = validate_code cfg s l2"
    by (simp add: validate_code_def)
  show "\<forall>p \<in> set dangerous_patterns. str_in p (lower s) \<longrightarrow>
         \<not> fst (validate_code cfg s ''html'') \<and> \<not> fst (validate_code cfg s ''javascript'')"
    using denied_rejected by blast
qed

theorem validate_code_language_independent_witness:
  "''open('' \<in> set dangerous_patterns
   \<and> str_in ''open('' (lower ''window.Open(1)'')
   \<and> validate_code Config ''window.Open(1)'' ''html''
       = validate_code Config ''window.Open(1)'' ''python''
   \<and> \<not> fst (validate_code Config ''window.Open(1)'' ''html'')
   \<and> \<not> fst (validate_code Config ''window.Open(1)'' ''javascript'')"
proof -
  have h1: "''open('' \<in> set dangerous_patterns" by (simp add: dangerous_patterns_def)
  have h2: "str_in ''open('' (lower ''window.Open(1)'')" by (simp add: eval_char)
  show ?thesis
    using h1 h2
      validate_code_language_independent [of Config "''window.Open(1)''" "''html''" "''python''"]
    by blast
qed

section \<open>Facts about the operating system\<close>

lemma events_os_unlink: "events (snd (os_unlink pf w p)) = events w @ [Unlink p]"
  by (simp add: os_unlink_def Let_def split: option.splits)

lemma files_os_unlink: "files (snd (os_unlink pf w p)) \<subseteq> files w"
  by (auto simp: os_unlink_def Let_def split: option.splits)

lemma session_os_unlink: "session (snd (os_unlink pf w p)) = session w"
  by (simp add: os_unlink_def Let_def split: option.splits)

lemma os_unlink_removes:
  "unlink_fails pf w p = None \<Longrightarrow> p \<notin> files (snd (os_unlink pf w p))"
  by (simp add: os_unlink_def Let_def)

lemma events_unlink_quietly: "events (unlink_quietly pf w p) = events w @ [Unlink p]"
  by (simp add: unlink_quietly_def events_os_unlink)

lemma files_unlink_quietly: "files (unlink_quietly pf w p) \<subseteq> files w"
  by (simp add: unlink_quietly_def files_os_unlink)

lemma unlink_quietly_removes:
  "unlink_fails pf w p = None \<Longrightarrow> p \<notin> files (unlink_quietly pf w p)"
  by (simp add: unlink_quietly_def os_unlink_removes)

lemma temp_file_bound:
  assumes "with_NamedTemporaryFile pf w sfx body = (Bound name, w1)"
  shows "w1 = w\<lparr>files := insert name (files w), events := events w @ [Created name]\<rparr>"
  using assms
  by (auto simp: with_NamedTemporaryFile_def Let_def split: sum.splits option.splits)

lemma events_subprocess_run:
  "\<exists>evs. events (snd (subprocess_run pf w args t cwd env)) = events w @ evs"
  by (auto simp: subprocess_run_def Let_def split: sum.splits)

lemma subprocess_run_completed:
  assumes "subprocess_run pf w args t cwd env = (Inr ch, w')"
  shows "popen pf w args cwd env = Inr ch \<and> \<not> exceeds (runtime ch) t
         \<and> w' = w\<lparr>files := disk ch (files w), events := events w @ [Spawned args]\<rparr>"
  using assms by (auto simp: subprocess_run_def Let_def split: sum.splits if_splits)

lemma subprocess_run_timeout:
  assumes "popen pf w args cwd env = Inr ch" and "exceeds (runtime ch) t"
  shows "subprocess_run pf w args t cwd env =
           (Inl (TimeoutExpired (timeout_str pf args t)),
            w\<lparr>files := disk ch (files w), events := events w @ [Spawned args, Killed args]\<rparr>)"
  using assms by (simp add: subprocess_run_def Let_def)

section \<open>Facts about the runners\<close>

lemma execute_c_code_compile_error:
  assumes tmp: "with_NamedTemporaryFile pf w ''.c'' cod = (Bound c_file, w1)"
    and gcc: "subprocess_run pf w1 (gcc_argv c_file (exe_name pf c_file))
                (EXECUTION_TIMEOUT cfg) None None = (Inr compile_result, w2)"
    and rc: "returncode compile_result \<noteq> 0"
  shows "execute_c_code pf cfg w cod =
           ((None, Some (stderr compile_result)),
            unlink_quietly pf (unlink_quietly pf w2 c_file) (exe_name pf c_file))"
  using assms by (simp add: execute_c_code_def Let_def)

text \<open>
  Claim C4: when the compiler completes with a non-zero exit status, \<^const>\<open>execute_c_code\<close>
  returns no output and the compiler's stderr, and the only child process of the
  invocation is the compiler: the binary is never started.
\<close>

theorem compile_error_not_run:
  assumes tmp: "with_NamedTemporaryFile pf w ''.c'' cod = (Bound c_file, w1)"
    and gcc: "subprocess_run pf w1 (gcc_argv c_file (exe_name pf c_file))
                (EXECUTION_TIMEOUT cfg) None None = (Inr compile_result, w2)"
    and rc: "returncode compile_result \<noteq> 0"
  shows "fst (execute_c_code pf cfg w cod) = (None, Some (stderr compile_result))
         \<and> events (snd (execute_c_code pf cfg w cod)) =
             events w @ [Created c_file, Spawned (gcc_argv c_file (exe_name pf c_file)),
                         Unlink c_file, Unlink (exe_name pf c_file)]
         \<and> Spawned [exe_name pf c_file]
             \<notin> set (drop (length (events w)) (events (snd (execute_c_code pf cfg w cod))))"
proof -
  have w1: "events w1 = events w @ [Created c_file]"
    using temp_file_bound [OF tmp] by simp
  have w2: "events w2 = events w1 @ [Spawned (gcc_argv c_file (exe_name pf c_file))]"
    using subprocess_run_completed [OF gcc] by simp
  have ev: "events (snd (execute_c_code pf cfg w cod)) =
             events w @ [Created c_file, Spawned (gcc_argv c_file (exe_name pf c_file)),
                         Unlink c_file, Unlink (exe_name pf c_file)]"
    by (simp add: execute_c_code_compile_error [OF assms] events_unlink_quietly w1 w2)
  have "Spawned [exe_name pf c_file]
          \<notin> set [Created c_file, Spawned (gcc_argv c_file (exe_name pf c_file)),
                  Unlink c_file, Unlink (exe_name pf c_file)]"
    by (simp add: gcc_argv_def)
  then show ?thesis
    using ev by (simp add: execute_c_code_compile_error [OF assms])
qed

lemmas example_simps = example_platform_def example_world_def child_exit_def
  child_forever_def with_NamedTemporaryFile_def subprocess_run_def os_unlink_def
  unlink_quietly_def exceeds_def exe_name_def gcc_argv_def Config_def Let_def

theorem compile_error_not_run_witness:
  "with_NamedTemporaryFile (example_platform gcc_fails) example_world ''.c'' ''int main( {''
     = (Bound ''/tmp/tmp0.c'',
        \<lparr>files = {''/tmp/tmp0.c''}, events = [Created ''/tmp/tmp0.c''], session = Map.empty\<rparr>)
   \<and> subprocess_run (example_platform gcc_fails)
        \<lparr>files = {''/tmp/tmp0.c''}, events = [Created ''/tmp/tmp0.c''], session = Map.empty\<rparr>
        (gcc_argv ''/tmp/tmp0.c'' (exe_name (example_platform gcc_fails) ''/tmp/tmp0.c''))
        (EXECUTION_TIMEOUT Config) None None
     = (Inr (child_exit 1 [] ''prog.c:1:1: error: expected declaration''),
        \<lparr>files = {''/tmp/tmp0.c''},
         events = [Created ''/tmp/tmp0.c'',
                   Spawned [''gcc'', ''/tmp/tmp0.c'', ''-o'', ''/tmp/tmp0'', ''-Wall'', ''-Wextra'']],
         session = Map.empty\<rparr>)
   \<and> returncode (child_exit 1 [] ''prog.c:1:1: error: expected declaration'') \<noteq> 0
   \<and> fst (execute_c_code (example_platform gcc_fails) Config example_world ''int main( {'')
       = (None, Some ''prog.c:1:1: error: expected declaration'')
   \<and> events (snd (execute_c_code (example_platform gcc_fails) Config example_world ''int main( {''))
       = [Created ''/tmp/tmp0.c'',
          Spawned [''gcc'', ''/tmp/tmp0.c'', ''-o'', ''/tmp/tmp0'', ''-Wall'', ''-Wextra''],
          Unlink ''/tmp/tmp0.c'', Unlink ''/tmp/tmp0'']"
proof -
  let ?pf = "example_platform gcc_fails"
  let ?w1 = "\<lparr>files = {''/tmp/tmp0.c''}, events = [Created ''/tmp/tmp0.c''], session = Map.empty\<rparr>"
  let ?cr = "child_exit 1 [] ''prog.c:1:1: error: expected declaration''"
  let ?w2 = "\<lparr>files = {''/tmp/tmp0.c''},
         events = [Created ''/tmp/tmp0.c'',
                   Spawned [''gcc'', ''/tmp/tmp0.c'', ''-o'', ''/tmp/tmp0'', ''-Wall'', ''-Wextra'']],
         session = Map.empty\<rparr>"
  have h1: "with_NamedTemporaryFile ?pf example_world ''.c'' ''int main( {'' = (Bound ''/tmp/tmp0.c'', ?w1)"
    by (simp add: example_simps)
  have h2: "subprocess_run ?pf ?w1 (gcc_argv ''/tmp/tmp0.c'' (exe_name ?pf ''/tmp/tmp0.c''))
              (EXECUTION_TIMEOUT Config) None None = (Inr ?cr, ?w2)"
    by (simp add: example_simps gcc_fails_def)
  have h3: "returncode ?cr \<noteq> 0" by (simp add: child_exit_def)
  show ?thesis
    using h1 h2 h3 compile_error_not_run [OF h1 h2 h3]
    by (simp add: example_simps)
qed

lemma python_timeout:
  assumes tmp: "with_NamedTemporaryFile pf w ''.py'' cod = (Bound temp_file, w1)"
    and ch: "popen pf w1 [''python'', temp_file] (Some (gettempdir pf)) (Some python_env) = Inr ch"
    and ex: "exceeds (runtime ch) (EXECUTION_TIMEOUT cfg)"
  shows "fst (execute_python_code pf cfg w cod) = (None, Some ''Execution timed out'')"
    and "Killed [''python'', temp_file] \<in> set (events (snd (execute_python_code pf cfg w cod)))"
  using tmp subprocess_run_timeout [OF ch ex]
  by (simp_all add: execute_python_code_def events_unlink_quietly)

lemma gcc_timeout:
  assumes tmp: "with_NamedTemporaryFile pf w ''.c'' cod = (Bound c_file, w1)"
    and ch: "popen pf w1 (gcc_argv c_file (exe_name pf c_file)) None None = Inr ch"
    and ex: "exceeds (runtime ch) (EXECUTION_TIMEOUT cfg)"
  shows "fst (execute_c_code pf cfg w cod) = (None, Some ''Execution timed out'')"
    and "Killed (gcc_argv c_file (exe_name pf c_file))
           \<in> set (events (snd (execute_c_code pf cfg w cod)))"
  using tmp subprocess_run_timeout [OF ch ex]
  by (simp_all add: execute_c_code_def events_unlink_quietly Let_def)

lemma binary_timeout:
  assumes tmp: "with_NamedTemporaryFile pf w ''.c'' cod = (Bound c_file, w1)"
    and gcc: "subprocess_run pf w1 (gcc_argv c_file (exe_name pf c_file))
                (EXECUTION_TIMEOUT cfg) None None = (Inr compile_result, w2)"
    and rc: "returncode compile_result = 0"
    and ch: "popen pf w2 [exe_name pf c_file] (Some (gettempdir pf)) None = Inr ch"
    and ex: "exceeds (runtime ch) (EXECUTION_TIMEOUT cfg)"
  shows "fst (execute_c_code pf cfg w cod) = (None, Some ''Execution timed out'')"
    and "Killed [exe_name pf c_file] \<in> set (events (snd (execute_c_code pf cfg w cod)))"
  using tmp gcc rc subprocess_run_timeout [OF ch ex]
  by (simp_all add: execute_c_code_def events_unlink_quietly Let_def)

text \<open>
  Claim C3: a child that is still running when \<^const>\<open>EXECUTION_TIMEOUT\<close> expires (10
  seconds in \<^const>\<open>Config\<close>) is killed, and the runner returns no output and the error
  \<^verbatim>\<open>Execution timed out\<close>. The child is the interpreter for Python, and the compiler
  or the compiled binary for C.
\<close>

theorem timeout_reported:
  "(with_NamedTemporaryFile pf w ''.py'' cod = (Bound temp_file, w1)
      \<and> popen pf w1 [''python'', temp_file] (Some (gettempdir pf)) (Some python_env) = Inr ch
      \<and> exceeds (runtime ch) (EXECUTION_TIMEOUT cfg)
    \<longrightarrow> fst (execute_python_code pf cfg w cod) = (None, Some ''Execution timed out'')
        \<and> Killed [''python'', temp_file]
            \<in> set (events (snd (execute_python_code pf cfg w cod))))
   \<and> (with_NamedTemporaryFile pf w ''.c'' cod = (Bound c_file, w1)
      \<and> popen pf w1 (gcc_argv c_file (exe_name pf c_file)) None None = Inr ch
      \<and> exceeds (runtime ch) (EXECUTION_TIMEOUT cfg)
    \<longrightarrow> fst (execute_c_code pf cfg w cod) = (None, Some ''Execution timed out'')
        \<and> Killed (gcc_argv c_file (exe_name pf c_file))
            \<in> set (events (snd (execute_c_code pf cfg w cod))))
   \<and> (with_NamedTemporaryFile pf w ''.c'' cod = (Bound c_file, w1)
      \<and> subprocess_run pf w1 (gcc_argv c_file (exe_name pf c_file))
            (EXECUTION_TIMEOUT cfg) None None = (Inr compile_result, w2)
      \<and> returncode compile_result = 0
      \<and> popen pf w2 [exe_name pf c_file] (Some (gettempdir pf)) None = Inr ch
      \<and> exceeds (runtime ch) (EXECUTION_TIMEOUT cfg)
    \<longrightarrow> fst (execute_c_code pf cfg w cod) = (None, Some ''Execution timed out'')
        \<and> Killed [exe_name pf c_file] \<in> set (events (snd (execute_c_code pf cfg w cod))))"
  by (intro conjI impI; elim conjE;
      (erule (2) python_timeout | erule (2) gcc_timeout | erule (4) binary_timeout))

theorem timeout_reported_witness:
  "(with_NamedTemporaryFile (example_platform all_hang) example_world ''.py'' ''while True: pass''
      = (Bound ''/tmp/tmp0.py'',
         snd (with_NamedTemporaryFile (example_platform all_hang) example_world ''.py''
                ''while True: pass''))
    \<and> popen (example_platform all_hang)
         (snd (with_NamedTemporaryFile (example_platform all_hang) example_world ''.py''
                ''while True: pass''))
         [''python'', ''/tmp/tmp0.py''] (Some (gettempdir (example_platform all_hang)))
         (Some python_env) = Inr child_forever
    \<and> exceeds (runtime child_forever) (EXECUTION_TIMEOUT Config)
    \<and> fst (execute_python_code (example_platform all_hang) Config example_world
              ''while True: pass'') = (None, Some ''Execution timed out'')
    \<and> Killed [''python'', ''/tmp/tmp0.py'']
         \<in> set (events (snd (execute_python_code (example_platform all_hang) Config
                                example_world ''while True: pass''))))
   \<and> (with_NamedTemporaryFile (example_platform all_hang) example_world ''.c'' ''int main;''
      = (Bound ''/tmp/tmp0.c'',
         snd (with_NamedTemporaryFile (example_platform all_hang) example_world ''.c''
                ''int main;''))
    \<and> popen (example_platform all_hang)
         (snd (with_NamedTemporaryFile (example_platform all_hang) example_world ''.c''
                ''int main;''))
         (gcc_argv ''/tmp/tmp0.c'' (exe_name (example_platform all_hang) ''/tmp/tmp0.c''))
         None None = Inr child_forever
    \<and> fst (execute_c_code (example_platform all_hang) Config example_world ''int main;'')
         = (None, Some ''Execution timed out'')
    \<and> Killed [''gcc'', ''/tmp/tmp0.c'', ''-o'', ''/tmp/tmp0'', ''-Wall'', ''-Wextra'']
         \<in> set (events (snd (execute_c_code (example_platform all_hang) Config
                                example_world ''int main;''))))
   \<and> (with_NamedTemporaryFile (example_platform binary_hangs) example_world ''.c''
        ''int main() { for (;;); }''
      = (Bound ''/tmp/tmp0.c'',
         snd (with_NamedTemporaryFile (example_platform binary_hangs) example_world ''.c''
                ''int main() { for (;;); }''))
    \<and> subprocess_run (example_platform binary_hangs)
         (snd (with_NamedTemporaryFile (example_platform binary_hangs) example_world ''.c''
                ''int main() { for (;;); }''))
         (gcc_argv ''/tmp/tmp0.c'' (exe_name (example_platform binary_hangs) ''/tmp/tmp0.c''))
         (EXECUTION_TIMEOUT Config) None None
      = (Inr ((child_exit 0 [] [])\<lparr>disk := insert ''/tmp/tmp0''\<rparr>),
         \<lparr>files = {''/tmp/tmp0'', ''/tmp/tmp0.c''},
          events = [Created ''/tmp/tmp0.c'',
                    Spawned [''gcc'', ''/tmp/tmp0.c'', ''-o'', ''/tmp/tmp0'', ''-Wall'', ''-Wextra'']],
          session = Map.empty\<rparr>)
    \<and> returncode ((child_exit 0 [] [])\<lparr>disk := insert ''/tmp/tmp0''\<rparr>) = 0
    \<and> popen (example_platform binary_hangs)
         \<lparr>files = {''/tmp/tmp0'', ''/tmp/tmp0.c''},
          events = [Created ''/tmp/tmp0.c'',
                    Spawned [''gcc'', ''/tmp/tmp0.c'', ''-o'', ''/tmp/tmp0'', ''-Wall'', ''-Wextra'']],
          session = Map.empty\<rparr>
         [exe_name (example_platform binary_hangs) ''/tmp/tmp0.c'']
         (Some (gettempdir (example_platform binary_hangs))) None = Inr child_forever
    \<and> fst (execute_c_code (example_platform binary_hangs) Config example_world
              ''int main() { for (;;); }'') = (None, Some ''Execution timed out'')
    \<and> Killed [''/tmp/tmp0'']
         \<in> set (events (snd (execute_c_code (example_platform binary_hangs) Config
                                example_world ''int main() { for (;;); }''))))"
proof -
  let ?A = "example_platform all_hang" and ?B = "example_platform binary_hangs"
  let ?py = "''while True: pass''" and ?c1 = "''int main;''"
  let ?c2 = "''int main() { for (;;); }''"
  let ?w2 = "\<lparr>files = {''/tmp/tmp0'', ''/tmp/tmp0.c''},
          events = [Created ''/tmp/tmp0.c'',
                    Spawned [''gcc'', ''/tmp/tmp0.c'', ''-o'', ''/tmp/tmp0'', ''-Wall'', ''-Wextra'']],
          session = Map.empty\<rparr>"
  let ?cc = "(child_exit 0 [] [])\<lparr>disk := insert ''/tmp/tmp0''\<rparr>"
  have ex: "exceeds (runtime child_forever) (EXECUTION_TIMEOUT Config)"
    by (simp add: exceeds_def child_forever_def)
  have p1: "with_NamedTemporaryFile ?A example_world ''.py'' ?py
              = (Bound ''/tmp/tmp0.py'', snd (with_NamedTemporaryFile ?A example_world ''.py'' ?py))"
    by (simp add: example_simps)
  have p2: "popen ?A (snd (with_NamedTemporaryFile ?A example_world ''.py'' ?py))
              [''python'', ''/tmp/tmp0.py''] (Some (gettempdir ?A)) (Some python_env)
              = Inr child_forever"
    by (simp add: example_platform_def all_hang_def)
  have g1: "with_NamedTemporaryFile ?A example_world ''.c'' ?c1
              = (Bound ''/tmp/tmp0.c'', snd (with_NamedTemporaryFile ?A example_world ''.c'' ?c1))"
    by (simp add: example_simps)
  have g2: "popen ?A (snd (with_NamedTemporaryFile ?A example_world ''.c'' ?c1))
              (gcc_argv ''/tmp/tmp0.c'' (exe_name ?A ''/tmp/tmp0.c'')) None None
              = Inr child_forever"
    by (simp add: example_platform_def all_hang_def)
  have b1: "with_NamedTemporaryFile ?B example_world ''.c'' ?c2
              = (Bound ''/tmp/tmp0.c'', snd (with_NamedTemporaryFile ?B example_world ''.c'' ?c2))"
    by (simp add: example_simps)
  have b2: "subprocess_run ?B (snd (with_NamedTemporaryFile ?B example_world ''.c'' ?c2))
              (gcc_argv ''/tmp/tmp0.c'' (exe_name ?B ''/tmp/tmp0.c''))
              (EXECUTION_TIMEOUT Config) None None = (Inr ?cc, ?w2)"
    by (simp add: example_simps binary_hangs_def)
  have b3: "returncode ?cc = 0" by (simp add: child_exit_def)
  have b4: "popen ?B ?w2 [exe_name ?B ''/tmp/tmp0.c''] (Some (gettempdir ?B)) None
              = Inr child_forever"
    by (simp add: example_platform_def binary_hangs_def exe_name_def)
  have py: "fst (execute_python_code ?A Config example_world ?py)
              = (None, Some ''Execution timed out'')
            \<and> Killed [''python'', ''/tmp/tmp0.py'']
                \<in> set (events (snd (execute_python_code ?A Config example_world ?py)))"
    using p1 p2 ex
      timeout_reported [of ?A example_world ?py "''/tmp/tmp0.py''"
        "snd (with_NamedTemporaryFile ?A example_world ''.py'' ?py)" child_forever Config]
    by blast
  have gcc: "fst (execute_c_code ?A Config example_world ?c1)
              = (None, Some ''Execution timed out'')
            \<and> Killed (gcc_argv ''/tmp/tmp0.c'' (exe_name ?A ''/tmp/tmp0.c''))
                \<in> set (events (snd (execute_c_code ?A Config example_world ?c1)))"
    using g1 g2 ex
      timeout_reported [of ?A example_world ?c1 _
        "snd (with_NamedTemporaryFile ?A example_world ''.c'' ?c1)" child_forever Config
        "''/tmp/tmp0.c''"]
    by blast
  have bin: "fst (execute_c_code ?B Config example_world ?c2)
              = (None, Some ''Execution timed out'')
            \<and> Killed [exe_name ?B ''/tmp/tmp0.c'']
                \<in> set (events (snd (execute_c_code ?B Config example_world ?c2)))"
    using b1 b2 b3 b4 ex
      timeout_reported [of ?B example_world ?c2 _
        "snd (with_NamedTemporaryFile ?B example_world ''.c'' ?c2)" child_forever Config
        "''/tmp/tmp0.c''" ?cc ?w2]
    by blast
  have n1: "gcc_argv ''/tmp/tmp0.c'' (exe_name ?A ''/tmp/tmp0.c'')
              = [''gcc'', ''/tmp/tmp0.c'', ''-o'', ''/tmp/tmp0'', ''-Wall'', ''-Wextra'']"
    by (simp add: gcc_argv_def exe_name_def example_platform_def)
  have n2: "exe_name ?B ''/tmp/tmp0.c'' = ''/tmp/tmp0''"
    by (simp add: exe_name_def example_platform_def)
  show ?thesis
    using p1 p2 ex py g1 g2 gcc b1 b2 b3 b4 bin unfolding n1 n2 by blast
qed


lemma execute_python_code_shape:
  assumes tmp: "with_NamedTemporaryFile pf w ''.py'' cod = (Bound temp_file, w1)"
  shows "\<exists>r w2 evs. execute_python_code pf cfg w cod = (r, unlink_quietly pf w2 temp_file)
                     \<and> events w2 = events w1 @ evs"
proof -
  obtain x w2 where run: "subprocess_run pf w1 [''python'', temp_file] (EXECUTION_TIMEOUT cfg)
                            (Some (gettempdir pf)) (Some python_env) = (x, w2)"
    by (cases "subprocess_run pf w1 [''python'', temp_file] (EXECUTION_TIMEOUT cfg)
                 (Some (gettempdir pf)) (Some python_env)")
  obtain evs where "events w2 = events w1 @ evs"
    using events_subprocess_run [of pf w1 "[''python'', temp_file]" "EXECUTION_TIMEOUT cfg"
            "Some (gettempdir pf)" "Some python_env"] run by auto
  moreover have "\<exists>r. execute_python_code pf cfg w cod = (r, unlink_quietly pf w2 temp_file)"
    using tmp run by (cases x) (simp_all add: execute_python_code_def)
  ultimately show ?thesis by blast
qed

lemma execute_c_code_shape:
  assumes tmp: "with_NamedTemporaryFile pf w ''.c'' cod = (Bound c_file, w1)"
  shows "\<exists>r w3 evs. execute_c_code pf cfg w cod =
                       (r, unlink_quietly pf (unlink_quietly pf w3 c_file) (exe_name pf c_file))
                     \<and> events w3 = events w1 @ evs"
proof -
  let ?exe = "exe_name pf c_file"
  obtain x w2 where gcc: "subprocess_run pf w1 (gcc_argv c_file ?exe) (EXECUTION_TIMEOUT cfg)
                            None None = (x, w2)"
    by (cases "subprocess_run pf w1 (gcc_argv c_file ?exe) (EXECUTION_TIMEOUT cfg) None None")
  obtain evs where e2: "events w2 = events w1 @ evs"
    using events_subprocess_run [of pf w1 "gcc_argv c_file ?exe" "EXECUTION_TIMEOUT cfg"
            None None] gcc by auto
  obtain y w3 where run: "subprocess_run pf w2 [?exe] (EXECUTION_TIMEOUT cfg)
                            (Some (gettempdir pf)) None = (y, w3)"
    by (cases "subprocess_run pf w2 [?exe] (EXECUTION_TIMEOUT cfg) (Some (gettempdir pf)) None")
  obtain evs' where e3: "events w3 = events w2 @ evs'"
    using events_subprocess_run [of pf w2 "[?exe]" "EXECUTION_TIMEOUT cfg"
            "Some (gettempdir pf)" None] run by auto
  show ?thesis
  proof (cases x)
    case (Inl e)
    then have "\<exists>r. execute_c_code pf cfg w cod =
                 (r, unlink_quietly pf (unlink_quietly pf w2 c_file) ?exe)"
      using tmp gcc by (simp add: execute_c_code_def Let_def)
    then show ?thesis using e2 by blast
  next
    case (Inr compile_result)
    show ?thesis
    proof (cases "returncode compile_result \<noteq> 0")
      case True
      then have "\<exists>r. execute_c_code pf cfg w cod =
                   (r, unlink_quietly pf (unlink_quietly pf w2 c_file) ?exe)"
        using tmp gcc Inr by (simp add: execute_c_code_def Let_def)
      then show ?thesis using e2 by blast
    next
      case False
      then have "\<exists>r. execute_c_code pf cfg w cod =
                   (r, unlink_quietly pf (unlink_quietly pf w3 c_file) ?exe)"
        using tmp gcc Inr run by (cases y) (simp_all add: execute_c_code_def Let_def)
      moreover have "events w3 = events w1 @ (evs @ evs')" using e2 e3 by simp
      ultimately show ?thesis by blast
    qed
  qed
qed

lemma python_scratch_unlinked:
  assumes tmp: "bound_name (fst (with_NamedTemporaryFile pf w ''.py'' cod)) = Some temp_file"
  shows "\<exists>evs. events (snd (execute_python_code pf cfg w cod))
                 = events (snd (with_NamedTemporaryFile pf w ''.py'' cod)) @ evs
                     @ [Unlink temp_file]"
    and "(\<forall>w'. unlink_fails pf w' temp_file = None)
           \<longrightarrow> temp_file \<notin> files (snd (execute_python_code pf cfg w cod))"
proof -
  obtain x w1 where t: "with_NamedTemporaryFile pf w ''.py'' cod = (x, w1)"
    by (cases "with_NamedTemporaryFile pf w ''.py'' cod")
  have "\<exists>r w2 evs. execute_python_code pf cfg w cod = (r, unlink_quietly pf w2 temp_file)
                     \<and> events w2 = events w1 @ evs"
  proof (cases x)
    case (Unbound e)
    then show ?thesis using tmp t by simp
  next
    case (Bound_raised name e)
    then have "execute_python_code pf cfg w cod
                 = (python_except e, unlink_quietly pf w1 temp_file)"
      using tmp t by (simp add: execute_python_code_def)
    moreover have "events w1 = events w1 @ []" by simp
    ultimately show ?thesis by blast
  next
    case (Bound name)
    then have "with_NamedTemporaryFile pf w ''.py'' cod = (Bound temp_file, w1)"
      using tmp t by simp
    then show ?thesis by (rule execute_python_code_shape)
  qed
  then obtain r w2 evs where s: "execute_python_code pf cfg w cod = (r, unlink_quietly pf w2 temp_file)"
      "events w2 = events w1 @ evs"
    by blast
  show "\<exists>evs. events (snd (execute_python_code pf cfg w cod))
                 = events (snd (with_NamedTemporaryFile pf w ''.py'' cod)) @ evs
                     @ [Unlink temp_file]"
    using s t by (simp add: events_unlink_quietly)
  show "(\<forall>w'. unlink_fails pf w' temp_file = None)
           \<longrightarrow> temp_file \<notin> files (snd (execute_python_code pf cfg w cod))"
    using s by (simp add: unlink_quietly_removes)
qed

lemma c_source_unlinked:
  assumes tmp: "bound_name (fst (with_NamedTemporaryFile pf w ''.c'' cod)) = Some c_file"
  shows "\<exists>evs evs'. events (snd (execute_c_code pf cfg w cod))
                 = events (snd (with_NamedTemporaryFile pf w ''.c'' cod)) @ evs
                     @ [Unlink c_file] @ evs'"
    and "(\<forall>w'. unlink_fails pf w' c_file = None)
           \<longrightarrow> c_file \<notin> files (snd (execute_c_code pf cfg w cod))"
proof -
  obtain x w1 where t: "with_NamedTemporaryFile pf w ''.c'' cod = (x, w1)"
    by (cases "with_NamedTemporaryFile pf w ''.c'' cod")
  have "\<exists>w3 w4 evs evs'. snd (execute_c_code pf cfg w cod) = w4
          \<and> events w3 = events w1 @ evs
          \<and> events w4 = events (unlink_quietly pf w3 c_file) @ evs'
          \<and> files w4 \<subseteq> files (unlink_quietly pf w3 c_file)"
  proof (cases x)
    case (Unbound e)
    then show ?thesis using tmp t by simp
  next
    case (Bound_raised name e)
    then have "snd (execute_c_code pf cfg w cod) = unlink_quietly pf w1 c_file"
      using tmp t by (simp add: execute_c_code_def)
    moreover have "events w1 = events w1 @ []" by simp
    moreover have "events (unlink_quietly pf w1 c_file) = events (unlink_quietly pf w1 c_file) @ []"
      by simp
    ultimately show ?thesis by blast
  next
    case (Bound name)
    then have "with_NamedTemporaryFile pf w ''.c'' cod = (Bound c_file, w1)"
      using tmp t by simp
    from execute_c_code_shape [OF this, of cfg] obtain r w3 evs where
      s: "execute_c_code pf cfg w cod =
            (r, unlink_quietly pf (unlink_quietly pf w3 c_file) (exe_name pf c_file))"
         "events w3 = events w1 @ evs"
      by blast
    have "events (unlink_quietly pf (unlink_quietly pf w3 c_file) (exe_name pf c_file))
            = events (unlink_quietly pf w3 c_file) @ [Unlink (exe_name pf c_file)]"
      by (simp add: events_unlink_quietly)
    moreover have "files (unlink_quietly pf (unlink_quietly pf w3 c_file) (exe_name pf c_file))
            \<subseteq> files (unlink_quietly pf w3 c_file)"
      by (rule files_unlink_quietly)
    ultimately show ?thesis using s by auto
  qed
  then obtain w3 w4 evs evs' where s: "snd (execute_c_code pf cfg w cod) = w4"
      "events w3 = events w1 @ evs"
      "events w4 = events (unlink_quietly pf w3 c_file) @ evs'"
      "files w4 \<subseteq> files (unlink_quietly pf w3 c_file)"
    by blast
  show "\<exists>evs evs'. events (snd (execute_c_code pf cfg w cod))
                 = events (snd (with_NamedTemporaryFile pf w ''.c'' cod)) @ evs
                     @ [Unlink c_file] @ evs'"
  proof -
    have "events (snd (execute_c_code pf cfg w cod))
            = events (snd (with_NamedTemporaryFile pf w ''.c'' cod)) @ evs
                @ [Unlink c_file] @ evs'"
      using s t by (simp add: events_unlink_quietly)
    then show ?thesis by blast
  qed
  show "(\<forall>w'. unlink_fails pf w' c_file = None)
           \<longrightarrow> c_file \<notin> files (snd (execute_c_code pf cfg w cod))"
  proof
    assume "\<forall>w'. unlink_fails pf w' c_file = None"
    then have "c_file \<notin> files (unlink_quietly pf w3 c_file)"
      by (simp add: unlink_quietly_removes)
    then show "c_file \<notin> files (snd (execute_c_code pf cfg w cod))"
      using s by blast
  qed
qed

lemma c_binary_unlinked:
  assumes tmp: "fst (with_NamedTemporaryFile pf w ''.c'' cod) = Bound c_file"
  shows "\<exists>evs. events (snd (execute_c_code pf cfg w cod))
                 = events (snd (with_NamedTemporaryFile pf w ''.c'' cod)) @ evs
                     @ [Unlink c_file, Unlink (exe_name pf c_file)]"
    and "(\<forall>w'. unlink_fails pf w' (exe_name pf c_file) = None)
           \<longrightarrow> exe_name pf c_file \<notin> files (snd (execute_c_code pf cfg w cod))"
proof -
  obtain w1 where t: "with_NamedTemporaryFile pf w ''.c'' cod = (Bound c_file, w1)"
    using tmp by (cases "with_NamedTemporaryFile pf w ''.c'' cod") simp
  from execute_c_code_shape [OF this, of cfg] obtain r w3 evs where
    s: "execute_c_code pf cfg w cod =
          (r, unlink_quietly pf (unlink_quietly pf w3 c_file) (exe_name pf c_file))"
       "events w3 = events w1 @ evs"
    by blast
  show "\<exists>evs. events (snd (execute_c_code pf cfg w cod))
                 = events (snd (with_NamedTemporaryFile pf w ''.c'' cod)) @ evs
                     @ [Unlink c_file, Unlink (exe_name pf c_file)]"
    using s t by (simp add: events_unlink_quietly)
  show "(\<forall>w'. unlink_fails pf w' (exe_name pf c_file) = None)
           \<longrightarrow> exe_name pf c_file \<notin> files (snd (execute_c_code pf cfg w cod))"
    using s by (simp add: unlink_quietly_removes)
qed

text \<open>
  Claim C2, as the code has it. Once the name of the scratch source file is bound, every
  exit path of a runner attempts to delete the file: the last thing
  \<^const>\<open>execute_python_code\<close> does is \<^verbatim>\<open>os.unlink\<close> of the source file, and
  \<^const>\<open>execute_c_code\<close> calls \<^verbatim>\<open>os.unlink\<close> of the source file too. When the block that
  writes the C source has completed, so that the name of the binary is bound as well,
  the last two things \<^const>\<open>execute_c_code\<close> does are \<^verbatim>\<open>os.unlink\<close> of the source file
  and of the binary, the second whatever the first one did. A deletion that fails is
  ignored; a file whose deletion the platform does not refuse is gone after the
  invocation.
\<close>

theorem scratch_files_unlinked:
  "(bound_name (fst (with_NamedTemporaryFile pf w ''.py'' cod)) = Some temp_file \<longrightarrow>
      (\<exists>evs. events (snd (execute_python_code pf cfg w cod))
               = events (snd (with_NamedTemporaryFile pf w ''.py'' cod)) @ evs
                   @ [Unlink temp_file])
      \<and> ((\<forall>w'. unlink_fails pf w' temp_file = None)
           \<longrightarrow> temp_file \<notin> files (snd (execute_python_code pf cfg w cod))))
   \<and> (bound_name (fst (with_NamedTemporaryFile pf w ''.c'' cod)) = Some c_file \<longrightarrow>
      (\<exists>evs evs'. events (snd (execute_c_code pf cfg w cod))
               = events (snd (with_NamedTemporaryFile pf w ''.c'' cod)) @ evs
                   @ [Unlink c_file] @ evs')
      \<and> ((\<forall>w'. unlink_fails pf w' c_file = None)
           \<longrightarrow> c_file \<notin> files (snd (execute_c_code pf cfg w cod))))
   \<and> (fst (with_NamedTemporaryFile pf w ''.c'' cod) = Bound c_file \<longrightarrow>
      (\<exists>evs. events (snd (execute_c_code pf cfg w cod))
               = events (snd (with_NamedTemporaryFile pf w ''.c'' cod)) @ evs
                   @ [Unlink c_file, Unlink (exe_name pf c_file)])
      \<and> ((\<forall>w'. unlink_fails pf w' (exe_name pf c_file) = None)
           \<longrightarrow> exe_name pf c_file \<notin> files (snd (execute_c_code pf cfg w cod))))"
proof (intro conjI impI)
  assume tmp: "bound_name (fst (with_NamedTemporaryFile pf w ''.py'' cod)) = Some temp_file"
  show "\<exists>evs. events (snd (execute_python_code pf cfg w cod))
               = events (snd (with_NamedTemporaryFile pf w ''.py'' cod)) @ evs
                   @ [Unlink temp_file]"
    by (rule python_scratch_unlinked(1) [OF tmp])
  assume "\<forall>w'. unlink_fails pf w' temp_file = None"
  then show "temp_file \<notin> files (snd (execute_python_code pf cfg w cod))"
    using python_scratch_unlinked(2) [OF tmp] by blast
next
  assume tmp: "bound_name (fst (with_NamedTemporaryFile pf w ''.c'' cod)) = Some c_file"
  show "\<exists>evs evs'. events (snd (execute_c_code pf cfg w cod))
               = events (snd (with_NamedTemporaryFile pf w ''.c'' cod)) @ evs
                   @ [Unlink c_file] @ evs'"
    by (rule c_source_unlinked(1) [OF tmp])
  assume "\<forall>w'. unlink_fails pf w' c_file = None"
  then show "c_file \<notin> files (snd (execute_c_code pf cfg w cod))"
    using c_source_unlinked(2) [OF tmp] by blast
next
  assume tmp: "fst (with_NamedTemporaryFile pf w ''.c'' cod) = Bound c_file"
  show "\<exists>evs. events (snd (execute_c_code pf cfg w cod))
               = events (snd (with_NamedTemporaryFile pf w ''.c'' cod)) @ evs
                   @ [Unlink c_file, Unlink (exe_name pf c_file)]"
    by (rule c_binary_unlinked(1) [OF tmp])
  assume "\<forall>w'. unlink_fails pf w' (exe_name pf c_file) = None"
  then show "exe_name pf c_file \<notin> files (snd (execute_c_code pf cfg w cod))"
    using c_binary_unlinked(2) [OF tmp] by blast
qed

theorem scratch_files_unlinked_witness:
  "(bound_name (fst (with_NamedTemporaryFile (close_refused (example_platform hello))
                      example_world ''.py'' ''print(1)'')) = Some ''/tmp/tmp0.py''
    \<and> (\<forall>w'. unlink_fails (close_refused (example_platform hello)) w' ''/tmp/tmp0.py'' = None)
    \<and> execute_python_code (close_refused (example_platform hello)) Config example_world
         ''print(1)''
        = ((None, Some ''Execution error: No space left on device''),
           \<lparr>files = {}, events = [Created ''/tmp/tmp0.py'', Unlink ''/tmp/tmp0.py''],
            session = Map.empty\<rparr>)
    \<and> ''/tmp/tmp0.py''
         \<notin> files (snd (execute_python_code (close_refused (example_platform hello)) Config
                           example_world ''print(1)'')))
   \<and> (bound_name (fst (with_NamedTemporaryFile (example_platform binary_hangs) example_world
                        ''.c'' ''int main() { for (;;); }'')) = Some ''/tmp/tmp0.c''
    \<and> fst (with_NamedTemporaryFile (example_platform binary_hangs) example_world
              ''.c'' ''int main() { for (;;); }'') = Bound ''/tmp/tmp0.c''
    \<and> (\<forall>w'. unlink_fails (example_platform binary_hangs) w' ''/tmp/tmp0.c'' = None)
    \<and> (\<forall>w'. unlink_fails (example_platform binary_hangs) w'
                (exe_name (example_platform binary_hangs) ''/tmp/tmp0.c'') = None)
    \<and> events (snd (execute_c_code (example_platform binary_hangs) Config example_world
                      ''int main() { for (;;); }''))
        = [Created ''/tmp/tmp0.c'',
           Spawned [''gcc'', ''/tmp/tmp0.c'', ''-o'', ''/tmp/tmp0'', ''-Wall'', ''-Wextra''],
           Spawned [''/tmp/tmp0''], Killed [''/tmp/tmp0''],
           Unlink ''/tmp/tmp0.c'', Unlink ''/tmp/tmp0'']
    \<and> ''/tmp/tmp0.c''
         \<notin> files (snd (execute_c_code (example_platform binary_hangs) Config example_world
                           ''int main() { for (;;); }''))
    \<and> ''/tmp/tmp0''
         \<notin> files (snd (execute_c_code (example_platform binary_hangs) Config example_world
                           ''int main() { for (;;); }'')))"
proof -
  let ?A = "close_refused (example_platform hello)" and ?B = "example_platform binary_hangs"
  let ?py = "''print(1)''" and ?c = "''int main() { for (;;); }''"
  have p1: "bound_name (fst (with_NamedTemporaryFile ?A example_world ''.py'' ?py))
              = Some ''/tmp/tmp0.py''"
    by (simp add: close_refused_def example_simps)
  have p2: "\<forall>w'. unlink_fails ?A w' ''/tmp/tmp0.py'' = None"
    by (simp add: close_refused_def example_platform_def)
  have p3: "execute_python_code ?A Config example_world ?py
        = ((None, Some ''Execution error: No space left on device''),
           \<lparr>files = {}, events = [Created ''/tmp/tmp0.py'', Unlink ''/tmp/tmp0.py''],
            session = Map.empty\<rparr>)"
    by (simp add: execute_python_code_def close_refused_def example_simps)
  have p4: "''/tmp/tmp0.py'' \<notin> files (snd (execute_python_code ?A Config example_world ?py))"
    using p1 p2 scratch_files_unlinked [of ?A example_world ?py "''/tmp/tmp0.py''" Config]
    by blast
  have n: "exe_name ?B ''/tmp/tmp0.c'' = ''/tmp/tmp0''"
    by (simp add: exe_name_def example_platform_def)
  have c0: "fst (with_NamedTemporaryFile ?B example_world ''.c'' ?c) = Bound ''/tmp/tmp0.c''"
    by (simp add: example_simps)
  then have c1: "bound_name (fst (with_NamedTemporaryFile ?B example_world ''.c'' ?c))
              = Some ''/tmp/tmp0.c''"
    by simp
  have c2: "\<forall>w'. unlink_fails ?B w' ''/tmp/tmp0.c'' = None"
    by (simp add: example_platform_def)
  have c3: "\<forall>w'. unlink_fails ?B w' (exe_name ?B ''/tmp/tmp0.c'') = None"
    by (simp add: example_platform_def)
  have c4: "events (snd (execute_c_code ?B Config example_world ?c))
        = [Created ''/tmp/tmp0.c'',
           Spawned [''gcc'', ''/tmp/tmp0.c'', ''-o'', ''/tmp/tmp0'', ''-Wall'', ''-Wextra''],
           Spawned [''/tmp/tmp0''], Killed [''/tmp/tmp0''],
           Unlink ''/tmp/tmp0.c'', Unlink ''/tmp/tmp0'']"
    by (simp add: execute_c_code_def example_simps binary_hangs_def)
  have c5: "''/tmp/tmp0.c'' \<notin> files (snd (execute_c_code ?B Config example_world ?c))
            \<and> exe_name ?B ''/tmp/tmp0.c''
                \<notin> files (snd (execute_c_code ?B Config example_world ?c))"
    using c0 c1 c2 c3
      scratch_files_unlinked [of ?B example_world ?c _ Config "''/tmp/tmp0.c''"]
    by blast
  show ?thesis
    using p1 p2 p3 p4 c0 c1 c2 c3 c4 c5 unfolding n by blast
qed


text \<open>
  C2 as stated fails: where the platform refuses to delete the file, the error is
  swallowed (\<^verbatim>\<open>except OSError: pass\<close>) and the scratch file remains after a successful
  run.
\<close>

theorem scratch_files_unlinked_counterexample:
  "fst (execute_python_code (unlink_refused (example_platform hello)) Config example_world
          ''print(1)'') = (Some ''Hello, World!'', None)
   \<and> ''/tmp/tmp0.py''
       \<in> files (snd (execute_python_code (unlink_refused (example_platform hello)) Config
                        example_world ''print(1)''))"
  by (simp add: execute_python_code_def unlink_refused_def example_simps hello_def)

text \<open>
  The theorem above is about invocations that bound the name of the scratch file. When
  writing the code into the new file fails, the name is never bound, the \<^verbatim>\<open>finally\<close>
  block deletes nothing, and the file stays on disk.
\<close>

lemma write_failure_leaves_scratch_file:
  "execute_python_code (write_refused (example_platform hello)) Config example_world ''print(1)''
     = ((None, Some ''Execution error: No space left on device''),
        \<lparr>files = {''/tmp/tmp0.py''}, events = [Created ''/tmp/tmp0.py''],
         session = Map.empty\<rparr>)"
  by (simp add: execute_python_code_def write_refused_def example_simps)


section \<open>Facts about the web layer\<close>

lemma validate_code_error_msg:
  "\<not> fst (validate_code cfg s l) \<Longrightarrow> \<exists>msg. snd (validate_code cfg s l) = Some msg"
  by (auto simp: validate_code_def Let_def split: if_splits option.splits)

lemma handle_code_execution_invalid:
  assumes "\<not> fst (validate_code cfg (dict_get form ''code'' code0)
                     (dict_get form ''language'' language0))"
  shows "handle_code_execution pf cfg w form theme0 code0 language0 =
           (\<lparr>page_output = None,
             page_error = snd (validate_code cfg (dict_get form ''code'' code0)
                                (dict_get form ''language'' language0)),
             page_html_preview = None, page_theme = theme0,
             page_code = dict_get form ''code'' code0,
             page_language = dict_get form ''language'' language0\<rparr>,
            w\<lparr>session := (session w)(''language'' \<mapsto> dict_get form ''language'' language0,
                                      ''code'' \<mapsto> dict_get form ''code'' code0)\<rparr>)"
  using assms
  by (cases "validate_code cfg (dict_get form ''code'' code0) (dict_get form ''language'' language0)")
     (simp add: handle_code_execution_def Let_def)

lemma api_execute_invalid:
  assumes "data \<noteq> []"
    and "\<not> fst (validate_code cfg (dict_get data ''code'' [])
                   (dict_get data ''language'' ''python''))"
  shows "api_execute pf cfg w (Inr (Some data)) =
           ((ErrorJson (snd (validate_code cfg (dict_get data ''code'' [])
                               (dict_get data ''language'' ''python''))), 400), w)"
  using assms
  by (cases "validate_code cfg (dict_get data ''code'' []) (dict_get data ''language'' ''python'')")
     (simp add: api_execute_def Let_def)

text \<open>
  Claim C1: both entry points validate before anything else is done with the code. When
  \<^const>\<open>validate_code\<close> rejects it, the form handler renders the page with the validation
  message as error and nothing else, and the API answers 400 with that message; neither
  creates a file or starts a child process (the trace of events and the files on disk
  are as before; the form handler has stored code and language in the session). A
  request to the API that carries no JSON object, or an empty one, is answered before
  validation and leaves the world as it is.
\<close>

theorem invalid_code_not_executed:
  "(\<not> fst (validate_code cfg (dict_get form ''code'' code0)
              (dict_get form ''language'' language0)) \<longrightarrow>
      page_error (fst (handle_code_execution pf cfg w form theme0 code0 language0))
        = snd (validate_code cfg (dict_get form ''code'' code0)
                 (dict_get form ''language'' language0))
      \<and> page_error (fst (handle_code_execution pf cfg w form theme0 code0 language0)) \<noteq> None
      \<and> page_output (fst (handle_code_execution pf cfg w form theme0 code0 language0)) = None
      \<and> page_html_preview (fst (handle_code_execution pf cfg w form theme0 code0 language0)) = None
      \<and> events (snd (handle_code_execution pf cfg w form theme0 code0 language0)) = events w
      \<and> files (snd (handle_code_execution pf cfg w form theme0 code0 language0)) = files w)
   \<and> (data \<noteq> [] \<and> \<not> fst (validate_code cfg (dict_get data ''code'' [])
                            (dict_get data ''language'' ''python'')) \<longrightarrow>
      api_execute pf cfg w (Inr (Some data))
        = ((ErrorJson (snd (validate_code cfg (dict_get data ''code'' [])
                              (dict_get data ''language'' ''python''))), 400), w)
      \<and> snd (validate_code cfg (dict_get data ''code'' [])
                (dict_get data ''language'' ''python'')) \<noteq> None)
   \<and> snd (api_execute pf cfg w (Inl e)) = w
   \<and> snd (api_execute pf cfg w (Inr None)) = w
   \<and> snd (api_execute pf cfg w (Inr (Some []))) = w"
proof (intro conjI impI)
  assume a: "\<not> fst (validate_code cfg (dict_get form ''code'' code0)
                      (dict_get form ''language'' language0))"
  note h = handle_code_execution_invalid [OF a, of pf w theme0]
  show "page_error (fst (handle_code_execution pf cfg w form theme0 code0 language0))
        = snd (validate_code cfg (dict_get form ''code'' code0)
                 (dict_get form ''language'' language0))"
    by (simp add: h)
  then show "page_error (fst (handle_code_execution pf cfg w form theme0 code0 language0)) \<noteq> None"
    using validate_code_error_msg [OF a] by auto
  show "page_output (fst (handle_code_execution pf cfg w form theme0 code0 language0)) = None"
    by (simp add: h)
  show "page_html_preview (fst (handle_code_execution pf cfg w form theme0 code0 language0)) = None"
    by (simp add: h)
  show "events (snd (handle_code_execution pf cfg w form theme0 code0 language0)) = events w"
    by (simp add: h)
  show "files (snd (handle_code_execution pf cfg w form theme0 code0 language0)) = files w"
    by (simp add: h)
next
  assume b: "data \<noteq> [] \<and> \<not> fst (validate_code cfg (dict_get data ''code'' [])
                            (dict_get data ''language'' ''python''))"
  then show "api_execute pf cfg w (Inr (Some data))
        = ((ErrorJson (snd (validate_code cfg (dict_get data ''code'' [])
                              (dict_get data ''language'' ''python''))), 400), w)"
    by (simp add: api_execute_invalid)
next
  assume b: "data \<noteq> [] \<and> \<not> fst (validate_code cfg (dict_get data ''code'' [])
                            (dict_get data ''language'' ''python''))"
  then show "snd (validate_code cfg (dict_get data ''code'' [])
                (dict_get data ''language'' ''python'')) \<noteq> None"
    using validate_code_error_msg by fastforce
next
  show "snd (api_execute pf cfg w (Inl e)) = w"
    by (simp add: api_execute_def)
  show "snd (api_execute pf cfg w (Inr None)) = w"
    by (simp add: api_execute_def)
  show "snd (api_execute pf cfg w (Inr (Some []))) = w"
    by (simp add: api_execute_def)
qed

lemmas validate_simps = validate_code_def Config_def strip_def dangerous_patterns_def
  dangerous_msg_def empty_msg_def dict_get_def

lemma validate_import_os:
  "validate_code Config ''import os'' ''python''
     = (False, Some ''Potentially dangerous code detected: import os'')"
  by (simp add: validate_simps eval_char)

theorem invalid_code_not_executed_witness:
  "\<not> fst (validate_code Config
            (dict_get [(''code'', ''import os''), (''language'', ''python'')] ''code'' [])
            (dict_get [(''code'', ''import os''), (''language'', ''python'')] ''language''
               ''python''))
   \<and> [(''code'', ''import os''), (''language'', ''python'')] \<noteq> []
   \<and> page_error (fst (handle_code_execution (example_platform hello) Config example_world
                         [(''code'', ''import os''), (''language'', ''python'')]
                         ''light'' [] ''python''))
       = Some ''Potentially dangerous code detected: import os''
   \<and> events (snd (handle_code_execution (example_platform hello) Config example_world
                     [(''code'', ''import os''), (''language'', ''python'')]
                     ''light'' [] ''python'')) = []
   \<and> files (snd (handle_code_execution (example_platform hello) Config example_world
                    [(''code'', ''import os''), (''language'', ''python'')]
                    ''light'' [] ''python'')) = {}
   \<and> api_execute (example_platform hello) Config example_world
        (Inr (Some [(''code'', ''import os''), (''language'', ''python'')]))
       = ((ErrorJson (Some ''Potentially dangerous code detected: import os''), 400),
          example_world)"
proof -
  let ?d = "[(''code'', ''import os''), (''language'', ''python'')]"
  have c: "dict_get ?d ''code'' [] = ''import os''" by (simp add: dict_get_def)
  have l: "dict_get ?d ''language'' ''python'' = ''python''" by (simp add: dict_get_def)
  have h1: "\<not> fst (validate_code Config (dict_get ?d ''code'' [])
                      (dict_get ?d ''language'' ''python''))"
    by (simp add: c l validate_import_os)
  have h2: "?d \<noteq> []" by simp
  have w: "events example_world = [] \<and> files example_world = {}"
    by (simp add: example_world_def)
  show ?thesis
    using h1 h2 w
      invalid_code_not_executed [of Config ?d "[]" "''python''" "example_platform hello"
        example_world "''light''" ?d]
    by (simp add: c l validate_import_os)
qed

lemma validate_console_log:
  "validate_code Config ''console.log(1);'' ''javascript'' = (True, None)"
  by (simp add: validate_simps eval_char)

text \<open>
  Claim C7 at the request \<^verbatim>\<open>{"code": "console.log(1);", "language": "javascript"}\<close>,
  which passes validation. The form handler echoes the code as informational text and
  executes nothing, as the claim says. The API endpoint has no branch for JavaScript: it
  answers 400 with \<^verbatim>\<open>Unsupported language: javascript\<close>.
\<close>

theorem api_execute_javascript:
  "validate_code Config ''console.log(1);'' ''javascript'' = (True, None)
   \<and> api_execute pf Config w
        (Inr (Some [(''code'', ''console.log(1);''), (''language'', ''javascript'')]))
       = ((ErrorJson (Some ''Unsupported language: javascript''), 400), w)
   \<and> page_output (fst (handle_code_execution pf Config w
                          [(''code'', ''console.log(1);''), (''language'', ''javascript'')]
                          theme0 code0 language0))
       = Some (javascript_output ''console.log(1);'')
   \<and> events (snd (handle_code_execution pf Config w
                     [(''code'', ''console.log(1);''), (''language'', ''javascript'')]
                     theme0 code0 language0)) = events w"
  by (simp add: api_execute_def handle_code_execution_def dict_get_def validate_console_log
        unsupported_msg_def Let_def)


















section \<open>Facts about the desktop window\<close>












end
